theory Spec2Isabelle
  imports Main "HOL-Library.Word"
begin

section \<open>FutarchyDAOGovernanceFHE: a shallow embedding of the contract\<close>

text \<open>
  The contract is written for Solidity 0.8.24 or later, so \<open>uint256\<close> arithmetic is
  checked: an addition or an increment that leaves the range reverts with
  \<open>Panic(0x11)\<close>.  A reverted call leaves the storage and the event log as they were;
  a call is therefore a function from the state before it to either the error it
  reverts with or the state after it.
\<close>

subsection \<open>Value types\<close>

type_synonym uint256 = "256 word"
type_synonym bytes32 = "256 word"
type_synonym address = "160 word"
type_synonym bytes = "8 word list"

text \<open>\<open>euint32\<close> is the library's handle type, a user-defined value type over \<open>bytes32\<close>.\<close>

type_synonym euint32 = "256 word"

subsection \<open>Storage layout, errors and events\<close>

record Proposal =
  encryptedProposalId :: euint32
  encryptedTargetValue :: euint32
  encryptedMarketPrediction :: euint32

record DecryptionContext =
  batchId :: uint256
  stateHash :: bytes32
  processed :: bool

text \<open>
  The nine custom errors of the contract, the two panics of checked arithmetic and of
  an index out of range, and the two reverts that come from outside the contract's
  own text: the library's signature check, and \<open>abi.decode\<close> on a short payload.
\<close>

datatype error =
    NotOwner
  | NotProvider
  | Paused
  | CooldownActive
  | BatchClosed
  | ReplayAttempt
  | StateMismatch
  | InvalidBatchId
  | ProposalNotInitialized
  | PanicOverflow
  | PanicIndex
  | InvalidProof
  | MalformedPayload

datatype event =
    OwnershipTransferred address address
  | ProviderAdded address
  | ProviderRemoved address
  | PausedEvent address
  | Unpaused address
  | CooldownSet uint256 uint256
  | BatchOpened uint256
  | BatchClosedEvent uint256
  | ProposalSubmitted uint256 address
  | DecryptionRequested uint256 uint256
  | DecryptionCompleted uint256 uint256 uint256 uint256 uint256 bool

record state =
  owner :: address
  isProvider :: "address \<Rightarrow> bool"
  lastSubmissionTime :: "address \<Rightarrow> uint256"
  lastDecryptionRequestTime :: "address \<Rightarrow> uint256"
  paused :: bool
  cooldownSeconds :: uint256
  currentBatchId :: uint256
  batchOpen :: bool
  proposals :: "uint256 \<Rightarrow> Proposal"
  decryptionContexts :: "uint256 \<Rightarrow> DecryptionContext"
  events :: "event list"

text \<open>What a call sees of its transaction: \<open>msg.sender\<close> and \<open>block.timestamp\<close>.\<close>

record msg =
  msg_sender :: address
  block_timestamp :: uint256

subsection \<open>The FHE library, as a parameter\<close>

text \<open>
  The contract imports \<open>@fhevm/solidity/lib/FHE.sol\<close>, which is not part of the
  repository.  Every function of it that the contract calls is a field of this record,
  and every operation below takes the record as its first argument.  \<open>keccak256\<close> is the
  EVM's hash, on the bytes that \<open>abi.encode\<close> produces.  \<open>FHE.checkSignatures\<close> reverts
  on a proof it rejects: the field is \<open>True\<close> where it returns.
  \<open>FHE.requestDecryption\<close> returns the request id that the decryption oracle allots;
  that id is an argument of \<open>requestGovernanceDecision\<close> below.
  Calls into the library are taken to return; what they change lies outside the
  contract's own storage.
\<close>

record fhe =
  isInitialized :: "euint32 \<Rightarrow> bool"
  toBytes32 :: "euint32 \<Rightarrow> bytes32"
  asEuint32 :: "32 word \<Rightarrow> euint32"
  checkSignatures :: "uint256 \<Rightarrow> bytes \<Rightarrow> bytes \<Rightarrow> bool"
  keccak256 :: "bytes \<Rightarrow> bytes32"

subsection \<open>Checked arithmetic and the ABI\<close>

definition checked_add :: "uint256 \<Rightarrow> uint256 \<Rightarrow> uint256 option" where
  "checked_add a b = (if unat a + unat b < 2 ^ 256 then Some (a + b) else None)"

text \<open>A 32-byte word, most significant byte first, and back.\<close>

definition word_bytes :: "bytes32 \<Rightarrow> bytes" where
  "word_bytes w = map (\<lambda>i. ucast (drop_bit (8 * (31 - i)) w)) [0..<32]"

definition bytes_word :: "bytes \<Rightarrow> uint256" where
  "bytes_word bs = foldl (\<lambda>acc b. acc * 256 + ucast b) 0 bs"

text \<open>
  \<open>abi.encode(ctsAsBytes32, address(this))\<close>: the elements of the fixed-size array in
  order, then the address widened to 32 bytes.
\<close>

definition abi_encode :: "bytes32 list \<Rightarrow> address \<Rightarrow> bytes" where
  "abi_encode arr this = concat (map word_bytes arr) @ word_bytes (ucast this)"

text \<open>
  \<open>abi.decode(cleartexts, (uint256, uint256, uint256))\<close>: three words from the first
  96 bytes; fewer bytes revert.
\<close>

definition abi_decode :: "bytes \<Rightarrow> (uint256 \<times> uint256 \<times> uint256) option" where
  "abi_decode bs =
     (if length bs < 96 then None
      else Some (bytes_word (take 32 bs),
                 bytes_word (take 32 (drop 32 bs)),
                 bytes_word (take 32 (drop 64 bs))))"

subsection \<open>Modifiers\<close>

text \<open>A modifier either reverts with an error or lets the body run.\<close>

definition onlyOwner :: "state \<Rightarrow> msg \<Rightarrow> error option" where
  "onlyOwner st m = (if msg_sender m \<noteq> owner st then Some NotOwner else None)"

definition onlyProvider :: "state \<Rightarrow> msg \<Rightarrow> error option" where
  "onlyProvider st m = (if \<not> isProvider st (msg_sender m) then Some NotProvider else None)"

definition whenNotPaused :: "state \<Rightarrow> error option" where
  "whenNotPaused st = (if paused st then Some Paused else None)"

definition respectCooldown :: "state \<Rightarrow> msg \<Rightarrow> error option" where
  "respectCooldown st m =
     (case checked_add (lastSubmissionTime st (msg_sender m)) (cooldownSeconds st) of
        None \<Rightarrow> Some PanicOverflow
      | Some ready \<Rightarrow> if block_timestamp m < ready then Some CooldownActive else None)"

definition respectDecryptionCooldown :: "state \<Rightarrow> msg \<Rightarrow> error option" where
  "respectDecryptionCooldown st m =
     (case checked_add (lastDecryptionRequestTime st (msg_sender m)) (cooldownSeconds st) of
        None \<Rightarrow> Some PanicOverflow
      | Some ready \<Rightarrow> if block_timestamp m < ready then Some CooldownActive else None)"

text \<open>Modifiers run in the order they are written; the first that reverts decides.\<close>

fun modifiers :: "error option list \<Rightarrow> error option" where
  "modifiers [] = None"
| "modifiers (None # gs) = modifiers gs"
| "modifiers (Some e # gs) = Some e"

definition emit :: "event \<Rightarrow> state \<Rightarrow> state" where
  "emit e st = st\<lparr>events := events st @ [e]\<rparr>"

subsection \<open>Construction and administration\<close>

definition emptyProposal :: Proposal where
  "emptyProposal =
     \<lparr>encryptedProposalId = 0, encryptedTargetValue = 0, encryptedMarketPrediction = 0\<rparr>"

definition emptyContext :: DecryptionContext where
  "emptyContext = \<lparr>batchId = 0, stateHash = 0, processed = False\<rparr>"

text \<open>Storage starts zeroed; the constructor then runs on it.\<close>

definition zeroState :: state where
  "zeroState =
     \<lparr>owner = 0, isProvider = (\<lambda>_. False), lastSubmissionTime = (\<lambda>_. 0),
      lastDecryptionRequestTime = (\<lambda>_. 0), paused = False, cooldownSeconds = 0,
      currentBatchId = 0, batchOpen = False, proposals = (\<lambda>_. emptyProposal),
      decryptionContexts = (\<lambda>_. emptyContext), events = []\<rparr>"

definition constructor :: "msg \<Rightarrow> state" where
  "constructor m =
     (let st1 = zeroState\<lparr>owner := msg_sender m\<rparr>;
          st2 = st1\<lparr>isProvider := (isProvider st1)(msg_sender m := True)\<rparr>;
          st3 = emit (ProviderAdded (msg_sender m)) st2
      in st3\<lparr>cooldownSeconds := 60\<rparr>)"

definition transferOwnership :: "state \<Rightarrow> msg \<Rightarrow> address \<Rightarrow> error + state" where
  "transferOwnership st m newOwner =
     (case modifiers [onlyOwner st m] of
        Some e \<Rightarrow> Inl e
      | None \<Rightarrow>
          (let previousOwner = owner st
           in Inr (emit (OwnershipTransferred previousOwner newOwner)
                     (st\<lparr>owner := newOwner\<rparr>))))"

definition addProvider :: "state \<Rightarrow> msg \<Rightarrow> address \<Rightarrow> error + state" where
  "addProvider st m provider =
     (case modifiers [onlyOwner st m] of
        Some e \<Rightarrow> Inl e
      | None \<Rightarrow>
          (if \<not> isProvider st provider
           then Inr (emit (ProviderAdded provider)
                       (st\<lparr>isProvider := (isProvider st)(provider := True)\<rparr>))
           else Inr st))"

definition removeProvider :: "state \<Rightarrow> msg \<Rightarrow> address \<Rightarrow> error + state" where
  "removeProvider st m provider =
     (case modifiers [onlyOwner st m] of
        Some e \<Rightarrow> Inl e
      | None \<Rightarrow>
          (if isProvider st provider
           then Inr (emit (ProviderRemoved provider)
                       (st\<lparr>isProvider := (isProvider st)(provider := False)\<rparr>))
           else Inr st))"

definition pause :: "state \<Rightarrow> msg \<Rightarrow> error + state" where
  "pause st m =
     (case modifiers [onlyOwner st m, whenNotPaused st] of
        Some e \<Rightarrow> Inl e
      | None \<Rightarrow> Inr (emit (PausedEvent (msg_sender m)) (st\<lparr>paused := True\<rparr>)))"

definition unpause :: "state \<Rightarrow> msg \<Rightarrow> error + state" where
  "unpause st m =
     (case modifiers [onlyOwner st m] of
        Some e \<Rightarrow> Inl e
      | None \<Rightarrow> Inr (emit (Unpaused (msg_sender m)) (st\<lparr>paused := False\<rparr>)))"

definition setCooldownSeconds :: "state \<Rightarrow> msg \<Rightarrow> uint256 \<Rightarrow> error + state" where
  "setCooldownSeconds st m newCooldownSeconds =
     (case modifiers [onlyOwner st m] of
        Some e \<Rightarrow> Inl e
      | None \<Rightarrow>
          (let oldCooldownSeconds = cooldownSeconds st
           in Inr (emit (CooldownSet oldCooldownSeconds newCooldownSeconds)
                     (st\<lparr>cooldownSeconds := newCooldownSeconds\<rparr>))))"

subsection \<open>Batches\<close>

definition openBatch :: "state \<Rightarrow> msg \<Rightarrow> error + state" where
  "openBatch st m =
     (case modifiers [onlyOwner st m, whenNotPaused st] of
        Some e \<Rightarrow> Inl e
      | None \<Rightarrow>
          (case checked_add (currentBatchId st) 1 of
             None \<Rightarrow> Inl PanicOverflow
           | Some next \<Rightarrow>
               (let st1 = st\<lparr>currentBatchId := next\<rparr>;
                    st2 = st1\<lparr>batchOpen := True\<rparr>
                in Inr (emit (BatchOpened (currentBatchId st2)) st2))))"

definition closeBatch :: "state \<Rightarrow> msg \<Rightarrow> error + state" where
  "closeBatch st m =
     (case modifiers [onlyOwner st m, whenNotPaused st] of
        Some e \<Rightarrow> Inl e
      | None \<Rightarrow>
          (let st1 = st\<lparr>batchOpen := False\<rparr>
           in Inr (emit (BatchClosedEvent (currentBatchId st1)) st1)))"

subsection \<open>Proposals\<close>

text \<open>
  \<open>_initIfNeeded\<close> takes its handle by value and returns nothing.  On a handle that is
  not initialized it calls \<open>FHE.asEuint32(0)\<close> and drops the handle that call returns,
  so neither the caller's variable nor the contract's storage changes.
\<close>

definition initIfNeeded :: "fhe \<Rightarrow> euint32 \<Rightarrow> unit" where
  "initIfNeeded F val = (if \<not> isInitialized F val then (let _ = asEuint32 F 0 in ()) else ())"

definition isProposalInitialized :: "fhe \<Rightarrow> state \<Rightarrow> uint256 \<Rightarrow> bool" where
  "isProposalInitialized F st bid =
     (let p = proposals st bid
      in isInitialized F (encryptedProposalId p) \<and>
         isInitialized F (encryptedTargetValue p) \<and>
         isInitialized F (encryptedMarketPrediction p))"

definition submitProposal ::
  "fhe \<Rightarrow> state \<Rightarrow> msg \<Rightarrow> euint32 \<Rightarrow> euint32 \<Rightarrow> euint32 \<Rightarrow> error + state" where
  "submitProposal F st m pid target prediction =
     (case modifiers [onlyProvider st m, whenNotPaused st, respectCooldown st m] of
        Some e \<Rightarrow> Inl e
      | None \<Rightarrow>
          (if \<not> batchOpen st then Inl BatchClosed
           else
             (let st1 = st\<lparr>lastSubmissionTime :=
                            (lastSubmissionTime st)(msg_sender m := block_timestamp m)\<rparr>;
                  _ = initIfNeeded F pid;
                  _ = initIfNeeded F target;
                  _ = initIfNeeded F prediction;
                  st2 = st1\<lparr>proposals := (proposals st1)(currentBatchId st1 :=
                            \<lparr>encryptedProposalId = pid,
                             encryptedTargetValue = target,
                             encryptedMarketPrediction = prediction\<rparr>)\<rparr>
              in Inr (emit (ProposalSubmitted (currentBatchId st2) (msg_sender m)) st2))))"

subsection \<open>Decryption requests and their callback\<close>

text \<open>
  The loop of \<open>_hashCiphertexts\<close> writes element \<open>i\<close> of the argument into slot \<open>i\<close> of
  a three-slot array; a fourth element would be an index out of range.
\<close>

fun hashLoop :: "fhe \<Rightarrow> euint32 list \<Rightarrow> nat \<Rightarrow> bytes32 list \<Rightarrow> error + bytes32 list" where
  "hashLoop F [] i arr = Inr arr"
| "hashLoop F (c # cts) i arr =
     (if i < length arr then hashLoop F cts (Suc i) (arr[i := toBytes32 F c])
      else Inl PanicIndex)"

definition hashCiphertexts :: "fhe \<Rightarrow> address \<Rightarrow> euint32 list \<Rightarrow> error + bytes32" where
  "hashCiphertexts F this cts =
     (case hashLoop F cts 0 (replicate 3 0) of
        Inl e \<Rightarrow> Inl e
      | Inr ctsAsBytes32 \<Rightarrow> Inr (keccak256 F (abi_encode ctsAsBytes32 this)))"

text \<open>The three handles of a stored proposal, in the order both callers read them.\<close>

definition ciphertextsOf :: "Proposal \<Rightarrow> euint32 list" where
  "ciphertextsOf p =
     [encryptedProposalId p, encryptedTargetValue p, encryptedMarketPrediction p]"

definition requestGovernanceDecision ::
  "fhe \<Rightarrow> address \<Rightarrow> state \<Rightarrow> msg \<Rightarrow> uint256 \<Rightarrow> uint256 \<Rightarrow> error + state" where
  "requestGovernanceDecision F this st m bid requestId =
     (case modifiers [onlyProvider st m, whenNotPaused st, respectDecryptionCooldown st m] of
        Some e \<Rightarrow> Inl e
      | None \<Rightarrow>
          (if bid \<noteq> currentBatchId st then Inl InvalidBatchId
           else if \<not> isProposalInitialized F st bid then Inl ProposalNotInitialized
           else
             (let st1 = st\<lparr>lastDecryptionRequestTime :=
                            (lastDecryptionRequestTime st)(msg_sender m := block_timestamp m)\<rparr>;
                  ctsArray = ciphertextsOf (proposals st1 bid)
              in case hashCiphertexts F this ctsArray of
                   Inl e \<Rightarrow> Inl e
                 | Inr h \<Rightarrow>
                     (let st2 = st1\<lparr>decryptionContexts := (decryptionContexts st1)(requestId :=
                                   \<lparr>batchId = bid, stateHash = h, processed = False\<rparr>)\<rparr>
                      in Inr (emit (DecryptionRequested requestId bid) st2)))))"

text \<open>Line 207: \<open>bool governanceDecision = marketPrediction >= targetValue\<close>.\<close>

definition governanceDecision :: "uint256 \<Rightarrow> uint256 \<Rightarrow> bool" where
  "governanceDecision marketPrediction targetValue = (marketPrediction \<ge> targetValue)"

definition myCallback ::
  "fhe \<Rightarrow> address \<Rightarrow> state \<Rightarrow> uint256 \<Rightarrow> bytes \<Rightarrow> bytes \<Rightarrow> error + state" where
  "myCallback F this st requestId cleartexts prf =
     (if processed (decryptionContexts st requestId) then Inl ReplayAttempt
      else
        (let ctx = decryptionContexts st requestId;
             bid = batchId ctx;
             currentCts = ciphertextsOf (proposals st bid)
         in case hashCiphertexts F this currentCts of
              Inl e \<Rightarrow> Inl e
            | Inr currentStateHash \<Rightarrow>
                (if currentStateHash \<noteq> stateHash ctx then Inl StateMismatch
                 else if \<not> checkSignatures F requestId cleartexts prf then Inl InvalidProof
                 else
                   (case abi_decode cleartexts of
                      None \<Rightarrow> Inl MalformedPayload
                    | Some (proposalId, targetValue, marketPrediction) \<Rightarrow>
                        (let decision = governanceDecision marketPrediction targetValue;
                             st1 = st\<lparr>decryptionContexts := (decryptionContexts st)(requestId :=
                                     (decryptionContexts st requestId)\<lparr>processed := True\<rparr>)\<rparr>
                         in Inr (emit (DecryptionCompleted requestId bid proposalId targetValue
                                         marketPrediction decision) st1))))))"

subsection \<open>Transactions\<close>

text \<open>
  The external functions as one datatype.  A request for a decision carries, after the
  batch id, the request id the oracle allots to it.
\<close>

datatype call =
    TransferOwnership address
  | AddProvider address
  | RemoveProvider address
  | Pause
  | Unpause
  | SetCooldownSeconds uint256
  | OpenBatch
  | CloseBatch
  | SubmitProposal euint32 euint32 euint32
  | RequestGovernanceDecision uint256 uint256
  | MyCallback uint256 bytes bytes

fun step :: "fhe \<Rightarrow> address \<Rightarrow> state \<Rightarrow> msg \<Rightarrow> call \<Rightarrow> error + state" where
  "step F this st m (TransferOwnership a) = transferOwnership st m a"
| "step F this st m (AddProvider a) = addProvider st m a"
| "step F this st m (RemoveProvider a) = removeProvider st m a"
| "step F this st m Pause = pause st m"
| "step F this st m Unpause = unpause st m"
| "step F this st m (SetCooldownSeconds n) = setCooldownSeconds st m n"
| "step F this st m OpenBatch = openBatch st m"
| "step F this st m CloseBatch = closeBatch st m"
| "step F this st m (SubmitProposal a b c) = submitProposal F st m a b c"
| "step F this st m (RequestGovernanceDecision b r) = requestGovernanceDecision F this st m b r"
| "step F this st m (MyCallback r cs p) = myCallback F this st r cs p"

text \<open>The state a transaction leaves: the old one when the call reverts.\<close>

definition commit :: "state \<Rightarrow> error + state \<Rightarrow> state" where
  "commit st r = (case r of Inl e \<Rightarrow> st | Inr st' \<Rightarrow> st')"

definition exec :: "fhe \<Rightarrow> address \<Rightarrow> state \<Rightarrow> msg \<times> call \<Rightarrow> state" where
  "exec F this st tx = commit st (step F this st (fst tx) (snd tx))"

definition succeeds :: "error + state \<Rightarrow> bool" where
  "succeeds r = (case r of Inl e \<Rightarrow> False | Inr st' \<Rightarrow> True)"

fun run :: "fhe \<Rightarrow> address \<Rightarrow> state \<Rightarrow> (msg \<times> call) list \<Rightarrow> state" where
  "run F this st [] = st"
| "run F this st (tx # txs) = run F this (exec F this st tx) txs"

subsection \<open>Vocabulary for the properties\<close>

text \<open>
  The request ids come from the decryption oracle, which never allots one twice.
  \<open>allots rid c\<close> says that call \<open>c\<close> is a request to which the oracle allots \<open>rid\<close>.
\<close>

fun allots :: "uint256 \<Rightarrow> call \<Rightarrow> bool" where
  "allots rid (RequestGovernanceDecision b r) = (r = rid)"
| "allots rid c = False"

fun isSubmitProposal :: "call \<Rightarrow> bool" where
  "isSubmitProposal (SubmitProposal a b c) = True"
| "isSubmitProposal c = False"

fun isRequestGovernanceDecision :: "call \<Rightarrow> bool" where
  "isRequestGovernanceDecision (RequestGovernanceDecision b r) = True"
| "isRequestGovernanceDecision c = False"

text \<open>The external functions that carry the modifier \<open>whenNotPaused\<close>.\<close>

fun carriesWhenNotPaused :: "call \<Rightarrow> bool" where
  "carriesWhenNotPaused Pause = True"
| "carriesWhenNotPaused OpenBatch = True"
| "carriesWhenNotPaused CloseBatch = True"
| "carriesWhenNotPaused (SubmitProposal a b c) = True"
| "carriesWhenNotPaused (RequestGovernanceDecision b r) = True"
| "carriesWhenNotPaused c = False"

text \<open>The access modifier of each external function, which is the first one it runs.\<close>

fun accessCheck :: "state \<Rightarrow> msg \<Rightarrow> call \<Rightarrow> error option" where
  "accessCheck st m (SubmitProposal a b c) = onlyProvider st m"
| "accessCheck st m (RequestGovernanceDecision b r) = onlyProvider st m"
| "accessCheck st m (MyCallback r cs p) = None"
| "accessCheck st m c = onlyOwner st m"

text \<open>The batch ids that the successful \<open>openBatch\<close> calls of a run open, in order.\<close>

fun openedIds :: "fhe \<Rightarrow> address \<Rightarrow> state \<Rightarrow> (msg \<times> call) list \<Rightarrow> uint256 list" where
  "openedIds F this st [] = []"
| "openedIds F this st (tx # txs) =
     (if snd tx = OpenBatch \<and> succeeds (openBatch st (fst tx))
      then [currentBatchId (exec F this st tx)] else [])
     @ openedIds F this (exec F this st tx) txs"

subsection \<open>A concrete instance\<close>

text \<open>
  A stand-in for the library, for running the contract on concrete inputs: a handle is
  initialized when it is not the zero handle, a proof is accepted when it is the single
  byte 1, and the hash of a byte string is the sum of its bytes plus its length.
\<close>

definition mockFhe :: fhe where
  "mockFhe =
     \<lparr>isInitialized = (\<lambda>h. h \<noteq> 0),
      toBytes32 = (\<lambda>h. h),
      asEuint32 = (\<lambda>v. ucast v + 1000),
      checkSignatures = (\<lambda>requestId cleartexts prf. prf = [1]),
      keccak256 = foldl (\<lambda>acc b. acc + ucast b + 1) 0\<rparr>"

definition thisAddr :: address where
  "thisAddr = 9"

definition adminMsg :: msg where
  "adminMsg = \<lparr>msg_sender = 1, block_timestamp = 1000\<rparr>"

definition laterMsg :: msg where
  "laterMsg = \<lparr>msg_sender = 1, block_timestamp = 2000\<rparr>"

text \<open>The owner again, 30 seconds after \<open>adminMsg\<close>: inside the cooldown of 60.\<close>

definition earlyMsg :: msg where
  "earlyMsg = \<lparr>msg_sender = 1, block_timestamp = 1030\<rparr>"

definition strangerMsg :: msg where
  "strangerMsg = \<lparr>msg_sender = 5, block_timestamp = 3000\<rparr>"

text \<open>
  The states of one history: deployment by address 1, \<open>openBatch\<close>, \<open>submitProposal\<close>
  of the handles 11, 12 and 13, \<open>requestGovernanceDecision\<close> for batch 1 with the
  request id 42, and from there either a resubmission, a settlement or a pause.
\<close>

definition deployed :: state where
  "deployed =
     \<lparr>owner = 1, isProvider = (\<lambda>_. False)(1 := True), lastSubmissionTime = (\<lambda>_. 0),
      lastDecryptionRequestTime = (\<lambda>_. 0), paused = False, cooldownSeconds = 60,
      currentBatchId = 0, batchOpen = False, proposals = (\<lambda>_. emptyProposal),
      decryptionContexts = (\<lambda>_. emptyContext), events = [ProviderAdded 1]\<rparr>"

definition opened :: state where
  "opened = deployed\<lparr>currentBatchId := 1, batchOpen := True,
     events := [ProviderAdded 1, BatchOpened 1]\<rparr>"

definition firstProposal :: Proposal where
  "firstProposal =
     \<lparr>encryptedProposalId = 11, encryptedTargetValue = 12, encryptedMarketPrediction = 13\<rparr>"

definition secondProposal :: Proposal where
  "secondProposal =
     \<lparr>encryptedProposalId = 21, encryptedTargetValue = 22, encryptedMarketPrediction = 23\<rparr>"

definition submitted :: state where
  "submitted = opened\<lparr>lastSubmissionTime := (\<lambda>_. 0)(1 := 1000),
     proposals := (\<lambda>_. emptyProposal)(1 := firstProposal),
     events := [ProviderAdded 1, BatchOpened 1, ProposalSubmitted 1 1]\<rparr>"

definition firstFingerprint :: bytes32 where
  "firstFingerprint = keccak256 mockFhe (abi_encode [11, 12, 13] thisAddr)"

definition requested :: state where
  "requested = submitted\<lparr>lastDecryptionRequestTime := (\<lambda>_. 0)(1 := 1000),
     decryptionContexts := (\<lambda>_. emptyContext)(42 :=
       \<lparr>batchId = 1, stateHash = firstFingerprint, processed = False\<rparr>),
     events := [ProviderAdded 1, BatchOpened 1, ProposalSubmitted 1 1,
                DecryptionRequested 42 1]\<rparr>"

definition resubmitted :: state where
  "resubmitted = requested\<lparr>lastSubmissionTime := (\<lambda>_. 0)(1 := 2000),
     proposals := (\<lambda>_. emptyProposal)(1 := secondProposal),
     events := [ProviderAdded 1, BatchOpened 1, ProposalSubmitted 1 1,
                DecryptionRequested 42 1, ProposalSubmitted 1 1]\<rparr>"

definition settled :: state where
  "settled = requested\<lparr>
     decryptionContexts := (\<lambda>_. emptyContext)(42 :=
       \<lparr>batchId = 1, stateHash = firstFingerprint, processed = True\<rparr>),
     events := [ProviderAdded 1, BatchOpened 1, ProposalSubmitted 1 1,
                DecryptionRequested 42 1, DecryptionCompleted 42 1 7 60 90 True]\<rparr>"

definition pausedState :: state where
  "pausedState = requested\<lparr>paused := True,
     events := [ProviderAdded 1, BatchOpened 1, ProposalSubmitted 1 1,
                DecryptionRequested 42 1, PausedEvent 1]\<rparr>"

text \<open>A state whose batch counter stands at the largest \<open>uint256\<close>.\<close>

definition lastBatchState :: state where
  "lastBatchState = opened\<lparr>currentBatchId := - 1\<rparr>"

text \<open>As many \<open>openBatch\<close> calls by the owner as the counter has values above zero.\<close>

definition manyOpens :: "(msg \<times> call) list" where
  "manyOpens = replicate (2 ^ 256 - 1) (adminMsg, OpenBatch)"

text \<open>The payload \<open>abi.encode(proposalId, targetValue, marketPrediction)\<close>.\<close>

definition payload :: "uint256 \<Rightarrow> uint256 \<Rightarrow> uint256 \<Rightarrow> bytes" where
  "payload proposalId targetValue marketPrediction =
     word_bytes proposalId @ word_bytes targetValue @ word_bytes marketPrediction"

text \<open>
  \<open>reopened\<close> is \<open>submitted\<close> after a second \<open>openBatch\<close>; \<open>halfInitialized\<close> is \<open>opened\<close>
  after a submission whose first handle is the zero handle.
\<close>

definition reopened :: state where
  "reopened = submitted\<lparr>currentBatchId := 2,
     events := [ProviderAdded 1, BatchOpened 1, ProposalSubmitted 1 1, BatchOpened 2]\<rparr>"

definition halfInitialized :: state where
  "halfInitialized = opened\<lparr>lastSubmissionTime := (\<lambda>_. 0)(1 := 1000),
     proposals := (\<lambda>_. emptyProposal)(1 :=
       \<lparr>encryptedProposalId = 0, encryptedTargetValue = 12, encryptedMarketPrediction = 13\<rparr>),
     events := [ProviderAdded 1, BatchOpened 1, ProposalSubmitted 1 1]\<rparr>"

section \<open>Properties\<close>

subsection \<open>Auxiliary facts\<close>

lemmas op_defs = transferOwnership_def addProvider_def removeProvider_def pause_def unpause_def
  setCooldownSeconds_def openBatch_def closeBatch_def submitProposal_def
  requestGovernanceDecision_def myCallback_def

lemmas mod_defs = onlyOwner_def onlyProvider_def whenNotPaused_def respectCooldown_def
  respectDecryptionCooldown_def

lemma unat_minus_one_256: "unat (- 1 :: uint256) = 2 ^ 256 - 1"
  by (simp add: unsigned_minus_1_eq_mask mask_eq_exp_minus_1)

lemma checked_add_one: "checked_add a 1 = (if a = - 1 then None else Some (a + 1))"
proof (cases "a = - 1")
  case True
  then show ?thesis by (simp add: checked_add_def unat_minus_one_256)
next
  case False
  then have "unat a \<noteq> unat (- 1 :: uint256)" by (simp add: word_unat_eq_iff)
  moreover have "unat a < 2 ^ 256" using unsigned_less [of a, where 'a = nat] by simp
  ultimately have "unat a + 1 < 2 ^ 256" unfolding unat_minus_one_256 by simp
  with False show ?thesis by (simp add: checked_add_def)
qed

lemma checked_add_unat: "checked_add a b = Some c \<Longrightarrow> unat c = unat a + unat b"
  by (auto simp: checked_add_def unat_add_lem [where 'a = 256, simplified] split: if_splits)

lemma succeeds_commit: "succeeds r \<Longrightarrow> r = Inr (commit st r)"
  by (cases r) (simp_all add: succeeds_def commit_def)

lemma succeeds_Inr [simp]: "succeeds (Inr s)"
  by (simp add: succeeds_def)

lemma succeeds_Inl [simp]: "\<not> succeeds (Inl e)"
  by (simp add: succeeds_def)

lemma commit_Inr [simp]: "commit st (Inr s) = s"
  by (simp add: commit_def)

lemma commit_Inl [simp]: "commit st (Inl e) = st"
  by (simp add: commit_def)

lemma hashCiphertexts_three:
  "hashCiphertexts F this [a, b, c] =
     Inr (keccak256 F (abi_encode [toBytes32 F a, toBytes32 F b, toBytes32 F c] this))"
  by (simp add: hashCiphertexts_def eval_nat_numeral)

lemma hashCiphertexts_of:
  "hashCiphertexts F this (ciphertextsOf p) =
     Inr (keccak256 F (abi_encode (map (toBytes32 F) (ciphertextsOf p)) this))"
  by (simp add: ciphertextsOf_def hashCiphertexts_three)

subsection \<open>What one transaction changes\<close>

lemma currentBatchId_exec:
  "currentBatchId (exec F this st (m, c)) =
     (if c = OpenBatch \<and> succeeds (openBatch st m) then currentBatchId st + 1
      else currentBatchId st)"
  by (cases c)
     (auto simp: exec_def op_defs emit_def Let_def checked_add_one hashCiphertexts_of
           split: option.splits if_splits prod.splits)

lemma unat_currentBatchId_exec:
  "unat (currentBatchId (exec F this st (m, c))) =
     unat (currentBatchId st) + (if c = OpenBatch \<and> succeeds (openBatch st m) then 1 else 0)"
proof (cases "c = OpenBatch \<and> succeeds (openBatch st m)")
  case True
  then have "checked_add (currentBatchId st) 1 = Some (currentBatchId st + 1)"
    by (auto simp: openBatch_def checked_add_one split: option.splits if_splits)
  from checked_add_unat [OF this] True show ?thesis
    by (simp add: currentBatchId_exec)
next
  case False
  then show ?thesis by (auto simp: currentBatchId_exec)
qed

lemma unat_currentBatchId_run:
  "unat (currentBatchId (run F this st txs)) =
     unat (currentBatchId st) + length (openedIds F this st txs)"
proof (induction txs arbitrary: st)
  case Nil
  then show ?case by simp
next
  case (Cons tx txs)
  obtain m c where tx: "tx = (m, c)" by (cases tx)
  show ?case
    using Cons.IH [of "exec F this st tx"] unat_currentBatchId_exec [of F this st m c]
    by (simp add: tx)
qed

lemma openedIds_enum:
  "map unat (openedIds F this st txs) =
     map (\<lambda>k. unat (currentBatchId st) + k) [1..<Suc (length (openedIds F this st txs))]"
proof (induction txs arbitrary: st)
  case Nil
  then show ?case by simp
next
  case (Cons tx txs)
  obtain m c where tx: "tx = (m, c)" by (cases tx)
  let ?st1 = "exec F this st tx"
  let ?n = "length (openedIds F this ?st1 txs)"
  note IH = Cons.IH [of ?st1]
  show ?case
  proof (cases "c = OpenBatch \<and> succeeds (openBatch st m)")
    case True
    then have u: "unat (currentBatchId ?st1) = Suc (unat (currentBatchId st))"
      using unat_currentBatchId_exec [of F this st m c] by (simp add: tx)
    have "[1..<Suc (Suc ?n)] = 1 # map Suc [1..<Suc ?n]"
      by (simp add: upt_conv_Cons map_Suc_upt del: upt_Suc)
    then show ?thesis
      using True IH u by (simp add: tx comp_def del: upt_Suc)
  next
    case False
    then have "unat (currentBatchId ?st1) = unat (currentBatchId st)"
      using unat_currentBatchId_exec [of F this st m c] by (auto simp: tx)
    then show ?thesis
      using False IH by (auto simp: tx)
  qed
qed

lemma openBatch_repeat:
  assumes "msg_sender m = owner st" and "\<not> paused st"
    and "unat (currentBatchId st) + n < 2 ^ 256"
  shows "owner (run F this st (replicate n (m, OpenBatch))) = owner st
         \<and> \<not> paused (run F this st (replicate n (m, OpenBatch)))
         \<and> unat (currentBatchId (run F this st (replicate n (m, OpenBatch))))
             = unat (currentBatchId st) + n"
  using assms
proof (induction n arbitrary: st)
  case 0
  then show ?case by simp
next
  case (Suc n)
  let ?st1 = "exec F this st (m, OpenBatch)"
  from Suc.prems(3) have "unat (currentBatchId st) \<noteq> unat (- 1 :: uint256)"
    unfolding unat_minus_one_256 by simp
  then have room: "currentBatchId st \<noteq> - 1" by auto
  with Suc.prems have ok: "openBatch st m =
      Inr (emit (BatchOpened (currentBatchId st + 1))
             (st\<lparr>currentBatchId := currentBatchId st + 1, batchOpen := True\<rparr>))"
    by (simp add: openBatch_def onlyOwner_def whenNotPaused_def checked_add_one)
  then have st1: "owner ?st1 = owner st" "\<not> paused ?st1"
    using Suc.prems by (simp_all add: exec_def emit_def)
  have u: "unat (currentBatchId ?st1) = unat (currentBatchId st) + 1"
    using unat_currentBatchId_exec [of F this st m OpenBatch] ok by simp
  from Suc.prems u have "unat (currentBatchId ?st1) + n < 2 ^ 256" by simp
  from Suc.IH [of ?st1, OF _ st1(2) this] st1 Suc.prems(1) u
  show ?case by simp
qed

lemma lastSubmissionTime_exec:
  "lastSubmissionTime (exec F this st (m, c)) =
     (if isSubmitProposal c \<and> succeeds (step F this st m c)
      then (lastSubmissionTime st)(msg_sender m := block_timestamp m)
      else lastSubmissionTime st)"
  by (cases c)
     (auto simp: exec_def op_defs emit_def Let_def checked_add_one hashCiphertexts_of
           split: option.splits if_splits prod.splits)

lemma lastDecryptionRequestTime_exec:
  "lastDecryptionRequestTime (exec F this st (m, c)) =
     (if isRequestGovernanceDecision c \<and> succeeds (step F this st m c)
      then (lastDecryptionRequestTime st)(msg_sender m := block_timestamp m)
      else lastDecryptionRequestTime st)"
  by (cases c)
     (auto simp: exec_def op_defs emit_def Let_def checked_add_one hashCiphertexts_of
           split: option.splits if_splits prod.splits)

lemma processed_exec:
  "processed (decryptionContexts st rid) \<Longrightarrow> \<not> allots rid c \<Longrightarrow>
     processed (decryptionContexts (exec F this st (m, c)) rid)"
  by (cases c)
     (auto simp: exec_def op_defs emit_def Let_def checked_add_one hashCiphertexts_of
           split: option.splits if_splits prod.splits)

lemma processed_run:
  "processed (decryptionContexts st rid) \<Longrightarrow> \<forall>tx\<in>set txs. \<not> allots rid (snd tx) \<Longrightarrow>
     processed (decryptionContexts (run F this st txs) rid)"
proof (induction txs arbitrary: st)
  case Nil
  then show ?case by simp
next
  case (Cons tx txs)
  obtain m c where tx: "tx = (m, c)" by (cases tx)
  from Cons.prems have "processed (decryptionContexts (exec F this st tx) rid)"
    by (simp add: tx processed_exec)
  with Cons show ?case by simp
qed

lemma myCallback_processed:
  "processed (decryptionContexts st rid) \<Longrightarrow> myCallback F this st rid ct prf = Inl ReplayAttempt"
  by (simp add: myCallback_def)

lemma myCallback_sets_processed:
  "myCallback F this st rid ct prf = Inr st' \<Longrightarrow> processed (decryptionContexts st' rid)"
  by (auto simp: myCallback_def Let_def emit_def hashCiphertexts_of
           split: if_splits option.splits)

lemma myCallback_mismatch:
  assumes "\<not> processed (decryptionContexts st rid)"
    and "hashCiphertexts F this (ciphertextsOf (proposals st (batchId (decryptionContexts st rid))))
           \<noteq> Inr (stateHash (decryptionContexts st rid))"
  shows "myCallback F this st rid ct prf = Inl StateMismatch"
  using assms by (auto simp: myCallback_def Let_def hashCiphertexts_of)

subsection \<open>The concrete history, step by step\<close>

lemmas scen_defs = deployed_def opened_def submitted_def requested_def resubmitted_def settled_def
  pausedState_def lastBatchState_def reopened_def halfInitialized_def adminMsg_def earlyMsg_def laterMsg_def strangerMsg_def
  firstProposal_def secondProposal_def emptyProposal_def emptyContext_def

lemma mock_simps:
  "isInitialized mockFhe h = (h \<noteq> 0)" "toBytes32 mockFhe h = h"
  "checkSignatures mockFhe r c p = (p = [1])"
  by (simp_all add: mockFhe_def)

lemma firstFingerprint_eq: "firstFingerprint = 173"
  unfolding firstFingerprint_def by code_simp

lemma secondFingerprint_eq: "keccak256 mockFhe (abi_encode [21, 22, 23] thisAddr) = 203"
  by code_simp

lemma emptyFingerprint_eq: "keccak256 mockFhe (abi_encode [0, 0, 0] thisAddr) = 137"
  by code_simp

lemma abi_decode_payloads:
  "abi_decode (payload 7 60 90) = Some (7, 60, 90)"
  "abi_decode (payload 7 50 75) = Some (7, 50, 75)"
  "abi_decode (payload 7 80 80) = Some (7, 80, 80)"
  "abi_decode (payload 7 80 79) = Some (7, 80, 79)"
  by code_simp+

lemma constructor_deployed: "constructor adminMsg = deployed"
  by (simp add: constructor_def zeroState_def emit_def scen_defs)

lemma openBatch_deployed: "openBatch deployed adminMsg = Inr opened"
  by (simp add: openBatch_def mod_defs emit_def checked_add_one scen_defs)

lemma submitProposal_opened: "submitProposal mockFhe opened adminMsg 11 12 13 = Inr submitted"
  by (simp add: submitProposal_def mod_defs emit_def checked_add_def scen_defs)

lemma requestGovernanceDecision_submitted:
  "requestGovernanceDecision mockFhe thisAddr submitted adminMsg 1 42 = Inr requested"
  by (simp add: requestGovernanceDecision_def mod_defs emit_def checked_add_def scen_defs
      isProposalInitialized_def mock_simps ciphertextsOf_def hashCiphertexts_three
      firstFingerprint_def)

lemma submitProposal_requested:
  "submitProposal mockFhe requested laterMsg 21 22 23 = Inr resubmitted"
  by (simp add: submitProposal_def mod_defs emit_def checked_add_def scen_defs)

lemma myCallback_requested:
  "myCallback mockFhe thisAddr requested 42 (payload 7 60 90) [1] = Inr settled"
  by (simp add: myCallback_def emit_def scen_defs abi_decode_payloads governanceDecision_def
      mock_simps ciphertextsOf_def hashCiphertexts_three firstFingerprint_def)

lemma myCallback_requested_succeeds:
  "abi_decode ct = Some v \<Longrightarrow> succeeds (myCallback mockFhe thisAddr requested 42 ct [1])"
  by (cases v) (simp add: myCallback_def emit_def scen_defs 
      mock_simps ciphertextsOf_def hashCiphertexts_three firstFingerprint_def)

lemma pause_requested: "pause requested adminMsg = Inr pausedState"
  by (simp add: pause_def mod_defs emit_def scen_defs)

subsection \<open>Freshness, replay and the decision\<close>

text \<open>
  Claim C1.  A request for a decision on batch \<open>B\<close> stores the fingerprint of the three
  handles that batch holds at that moment.  When \<open>submitProposal\<close> then overwrites the
  batch with handles whose fingerprint is another one, the callback for that request id
  finds the stored context unprocessed, recomputes the fingerprint from the handles now
  stored under the context's batch id, and reverts with \<open>StateMismatch\<close>, whatever the
  payload and the proof; the state stays as it was.
\<close>

theorem stale_callback_rejected:
  assumes req: "requestGovernanceDecision F this st m1 B rid = Inr st1"
    and sub: "submitProposal F st1 m2 h0 h1 h2 = Inr st2"
    and diff: "hashCiphertexts F this [h0, h1, h2] \<noteq> Inr (stateHash (decryptionContexts st1 rid))"
  shows "Inr (stateHash (decryptionContexts st1 rid)) =
           hashCiphertexts F this (ciphertextsOf (proposals st B))
         \<and> myCallback F this st2 rid ct prf = Inl StateMismatch
         \<and> exec F this st2 (m3, MyCallback rid ct prf) = st2"
proof -
  from req have ctx: "decryptionContexts st1 rid =
      \<lparr>batchId = B, stateHash = keccak256 F (abi_encode (map (toBytes32 F)
          (ciphertextsOf (proposals st B))) this), processed = False\<rparr>"
    and cur: "currentBatchId st1 = B"
    by (auto simp: requestGovernanceDecision_def Let_def emit_def hashCiphertexts_of
             split: option.splits if_splits)
  from sub have ctx2: "decryptionContexts st2 = decryptionContexts st1"
    and prop2: "proposals st2 (currentBatchId st1) =
      \<lparr>encryptedProposalId = h0, encryptedTargetValue = h1, encryptedMarketPrediction = h2\<rparr>"
    by (auto simp: submitProposal_def Let_def emit_def split: option.splits if_splits)
  have fp: "Inr (stateHash (decryptionContexts st1 rid)) =
      hashCiphertexts F this (ciphertextsOf (proposals st B))"
    by (simp add: ctx hashCiphertexts_of)
  have "myCallback F this st2 rid ct prf = Inl StateMismatch"
  proof (rule myCallback_mismatch)
    show "\<not> processed (decryptionContexts st2 rid)" by (simp add: ctx2 ctx)
    have "ciphertextsOf (proposals st2 (batchId (decryptionContexts st2 rid))) = [h0, h1, h2]"
      by (simp add: ctx2 ctx prop2 [unfolded cur] ciphertextsOf_def)
    with diff show "hashCiphertexts F this
        (ciphertextsOf (proposals st2 (batchId (decryptionContexts st2 rid))))
        \<noteq> Inr (stateHash (decryptionContexts st2 rid))"
      by (simp add: ctx2)
  qed
  with fp show ?thesis by (simp add: exec_def)
qed

text \<open>
  The history of the concrete instance: request 42 fingerprints the handles 11, 12, 13;
  the resubmission stores 21, 22, 23; the callback for 42 then reverts.
\<close>

theorem stale_callback_rejected_witness:
  "requestGovernanceDecision mockFhe thisAddr submitted adminMsg 1 42 = Inr requested
   \<and> submitProposal mockFhe requested laterMsg 21 22 23 = Inr resubmitted
   \<and> hashCiphertexts mockFhe thisAddr [21, 22, 23]
        \<noteq> Inr (stateHash (decryptionContexts requested 42))
   \<and> myCallback mockFhe thisAddr resubmitted 42 (payload 7 60 90) [1] = Inl StateMismatch
   \<and> exec mockFhe thisAddr resubmitted (strangerMsg, MyCallback 42 (payload 7 60 90) [1])
        = resubmitted"
proof -
  have diff: "hashCiphertexts mockFhe thisAddr [21, 22, 23]
      \<noteq> Inr (stateHash (decryptionContexts requested 42))"
    by (simp add: hashCiphertexts_three mock_simps secondFingerprint_eq requested_def
        firstFingerprint_eq)
  from stale_callback_rejected [OF requestGovernanceDecision_submitted
      submitProposal_requested diff]
  show ?thesis
    using requestGovernanceDecision_submitted submitProposal_requested diff by simp
qed

text \<open>
  Claim C2.  A callback that succeeds marks the context of its request id processed.
  The mark stays through every later run of transactions in which the oracle does not
  allot that id again, and each later callback for the id reverts with \<open>ReplayAttempt\<close>:
  for every payload, every proof and every library, so before the fingerprint, the proof
  or the payload is looked at.  The state stays as it was.
\<close>

theorem replay_rejected:
  assumes first: "myCallback F this st0 rid ct0 prf0 = Inr st"
    and fresh: "\<forall>tx\<in>set txs. \<not> allots rid (snd tx)"
  shows "processed (decryptionContexts st rid)
         \<and> processed (decryptionContexts (run F this st txs) rid)
         \<and> myCallback F this (run F this st txs) rid ct prf = Inl ReplayAttempt
         \<and> exec F this (run F this st txs) (m, MyCallback rid ct prf) = run F this st txs"
proof -
  from first have p: "processed (decryptionContexts st rid)"
    by (rule myCallback_sets_processed)
  from processed_run [OF p fresh] p show ?thesis
    by (simp add: myCallback_processed exec_def)
qed

text \<open>
  In the concrete history the first callback for 42 settles; a second one reverts, at
  once and also after a resubmission and a callback by a stranger.
\<close>

theorem replay_rejected_witness:
  "myCallback mockFhe thisAddr requested 42 (payload 7 60 90) [1] = Inr settled
   \<and> processed (decryptionContexts settled 42)
   \<and> myCallback mockFhe thisAddr
        (run mockFhe thisAddr settled
           [(laterMsg, SubmitProposal 21 22 23), (strangerMsg, MyCallback 42 [] [])])
        42 (payload 7 80 79) [1] = Inl ReplayAttempt
   \<and> myCallback mockFhe thisAddr settled 42 (payload 7 60 90) [1] = Inl ReplayAttempt"
proof -
  have a: "\<forall>tx\<in>set [(laterMsg, SubmitProposal 21 22 23), (strangerMsg, MyCallback 42 [] [])].
      \<not> allots 42 (snd tx)"
    by simp
  have b: "\<forall>tx\<in>set []. \<not> allots (42 :: uint256) (snd (tx :: msg \<times> call))"
    by simp
  from replay_rejected [OF myCallback_requested a, of "payload 7 80 79" "[1]"]
    replay_rejected [OF myCallback_requested b, of "payload 7 60 90" "[1]"]
  show ?thesis
    using myCallback_requested by simp
qed

text \<open>
  Claim C5.  A callback that succeeds emits \<open>DecryptionCompleted\<close> with the three decoded
  values and the decision \<open>marketPrediction \<ge> targetValue\<close>.  Target 50 with prediction
  75 passes, target 80 with prediction 80 passes (a tie), target 80 with prediction 79
  does not.
\<close>

theorem decision_nonstrict:
  "(myCallback F this st rid ct prf = Inr st' \<longrightarrow>
      (\<exists>p t mp. abi_decode ct = Some (p, t, mp) \<and>
         events st' = events st @
           [DecryptionCompleted rid (batchId (decryptionContexts st rid)) p t mp (t \<le> mp)]))
   \<and> governanceDecision 75 50 \<and> governanceDecision 80 80 \<and> \<not> governanceDecision 79 80"
  by (auto simp: myCallback_def Let_def emit_def governanceDecision_def
           split: if_splits sum.splits option.splits)

lemma requested_batchId: "batchId (decryptionContexts requested 42) = 1"
  by (simp add: requested_def)

text \<open>
  The three decisions, as events of callbacks for request 42.
\<close>

theorem decision_nonstrict_witness:
  "events (commit requested (myCallback mockFhe thisAddr requested 42 (payload 7 50 75) [1]))
     = events requested @ [DecryptionCompleted 42 1 7 50 75 True]
   \<and> events (commit requested (myCallback mockFhe thisAddr requested 42 (payload 7 80 80) [1]))
     = events requested @ [DecryptionCompleted 42 1 7 80 80 True]
   \<and> events (commit requested (myCallback mockFhe thisAddr requested 42 (payload 7 80 79) [1]))
     = events requested @ [DecryptionCompleted 42 1 7 80 79 False]"
proof -
  have ev: "events (commit requested (myCallback mockFhe thisAddr requested 42 ct [1]))
      = events requested @ [DecryptionCompleted 42 1 p t mp (t \<le> mp)]"
    if d: "abi_decode ct = Some (p, t, mp)" for ct p t mp
  proof -
    let ?r = "myCallback mockFhe thisAddr requested 42 ct [1]"
    have "?r = Inr (commit requested ?r)"
      by (rule succeeds_commit) (rule myCallback_requested_succeeds [OF d])
    with decision_nonstrict [of mockFhe thisAddr requested 42 ct "[1]" "commit requested ?r"]
    show ?thesis by (simp add: d requested_batchId)
  qed
  from ev [OF abi_decode_payloads(2)] ev [OF abi_decode_payloads(3)] ev [OF abi_decode_payloads(4)]
  show ?thesis by simp
qed

text \<open>
  Claim C9.  A request id that no request created has the zero context: batch id 0, zero
  fingerprint, not processed.  A callback for it is not a replay, and there is no error
  of its own for an unknown id: the callback either settles or reverts with one of
  \<open>StateMismatch\<close>, \<open>InvalidProof\<close> and \<open>MalformedPayload\<close>.  Whenever the fingerprint
  of the handles stored under batch 0 is not the zero word, it reverts with
  \<open>StateMismatch\<close> and nothing is settled.
\<close>

theorem unknown_request_callback:
  assumes "decryptionContexts st rid = emptyContext"
  shows "myCallback F this st rid ct prf \<noteq> Inl ReplayAttempt
         \<and> (succeeds (myCallback F this st rid ct prf)
              \<or> myCallback F this st rid ct prf
                   \<in> {Inl StateMismatch, Inl InvalidProof, Inl MalformedPayload})
         \<and> (hashCiphertexts F this (ciphertextsOf (proposals st 0)) \<noteq> Inr 0 \<longrightarrow>
              myCallback F this st rid ct prf = Inl StateMismatch
              \<and> exec F this st (m, MyCallback rid ct prf) = st)"
  using assms
  by (auto simp: myCallback_def Let_def emptyContext_def exec_def hashCiphertexts_of emit_def
           split: option.splits)

text \<open>
  Request id 5 is unknown in the concrete history.
\<close>

theorem unknown_request_callback_witness:
  "decryptionContexts requested 5 = emptyContext
   \<and> hashCiphertexts mockFhe thisAddr (ciphertextsOf (proposals requested 0)) \<noteq> Inr 0
   \<and> myCallback mockFhe thisAddr requested 5 (payload 7 60 90) [1] = Inl StateMismatch
   \<and> exec mockFhe thisAddr requested (strangerMsg, MyCallback 5 (payload 7 60 90) [1]) = requested"
proof -
  have c: "decryptionContexts requested 5 = emptyContext"
    by (simp add: requested_def)
  have h: "hashCiphertexts mockFhe thisAddr (ciphertextsOf (proposals requested 0)) \<noteq> Inr 0"
    by (simp add: scen_defs ciphertextsOf_def hashCiphertexts_three mock_simps emptyFingerprint_eq)
  from unknown_request_callback [OF c, of mockFhe thisAddr "payload 7 60 90" "[1]" strangerMsg]
  show ?thesis using c h by simp
qed

subsection \<open>The pause flag\<close>

text \<open>
  Claim C3, as the contract has it.  The claim that every mutating operation but
  \<open>unpause\<close> fails while the flag is set does not hold: in the paused state of the
  concrete history the owner transfers the ownership, and the callback for request 42
  settles.
\<close>

theorem pause_gate_counterexample:
  "paused pausedState
   \<and> transferOwnership pausedState adminMsg 7 \<noteq> Inl Paused
   \<and> owner (commit pausedState (transferOwnership pausedState adminMsg 7)) = 7
   \<and> owner pausedState = 1
   \<and> myCallback mockFhe thisAddr pausedState 42 (payload 7 60 90) [1] \<noteq> Inl Paused
   \<and> processed (decryptionContexts
        (commit pausedState (myCallback mockFhe thisAddr pausedState 42 (payload 7 60 90) [1])) 42)
   \<and> \<not> processed (decryptionContexts pausedState 42)"
  by (simp add: transferOwnership_def myCallback_def onlyOwner_def emit_def scen_defs
      abi_decode_payloads mock_simps ciphertextsOf_def hashCiphertexts_three firstFingerprint_def)

text \<open>
  Claim C3, amended.  While the flag is set, the five functions that carry
  \<open>whenNotPaused\<close> (\<open>pause\<close>, \<open>openBatch\<close>, \<open>closeBatch\<close>, \<open>submitProposal\<close>,
  \<open>requestGovernanceDecision\<close>) revert and change nothing: with the error of their
  access modifier when the caller fails it, with \<open>Paused\<close> otherwise.  The other
  functions never revert with \<open>Paused\<close>, and whether they succeed does not depend on the
  flag; \<open>transferOwnership\<close>, \<open>addProvider\<close>, \<open>removeProvider\<close>, \<open>setCooldownSeconds\<close>
  and \<open>unpause\<close> succeed for the owner.
\<close>

theorem pause_gate:
  assumes "paused st"
  shows "(carriesWhenNotPaused c \<longrightarrow>
            step F this st m c = Inl (case accessCheck st m c of None \<Rightarrow> Paused | Some e \<Rightarrow> e)
            \<and> exec F this st (m, c) = st)
         \<and> (\<not> carriesWhenNotPaused c \<longrightarrow>
              step F this st m c \<noteq> Inl Paused
              \<and> succeeds (step F this st m c) = succeeds (step F this (st\<lparr>paused := False\<rparr>) m c))
         \<and> (msg_sender m = owner st \<longrightarrow>
              succeeds (transferOwnership st m a) \<and> succeeds (addProvider st m a)
              \<and> succeeds (removeProvider st m a) \<and> succeeds (setCooldownSeconds st m n)
              \<and> succeeds (unpause st m))"
proof (intro conjI impI)
  assume "carriesWhenNotPaused c"
  with assms show "step F this st m c =
      Inl (case accessCheck st m c of None \<Rightarrow> Paused | Some e \<Rightarrow> e)"
    by (cases c) (auto simp: op_defs onlyOwner_def onlyProvider_def whenNotPaused_def)
  then show "exec F this st (m, c) = st"
    by (simp add: exec_def)
next
  assume "\<not> carriesWhenNotPaused c"
  then show "step F this st m c \<noteq> Inl Paused"
    by (cases c)
       (auto simp: op_defs onlyOwner_def emit_def Let_def hashCiphertexts_of
             split: option.splits if_splits)
next
  assume "\<not> carriesWhenNotPaused c"
  then show "succeeds (step F this st m c) = succeeds (step F this (st\<lparr>paused := False\<rparr>) m c)"
    by (cases c)
       (auto simp: op_defs onlyOwner_def emit_def Let_def hashCiphertexts_of
             split: option.splits if_splits)
next
  assume "msg_sender m = owner st"
  then show "succeeds (transferOwnership st m a)" "succeeds (addProvider st m a)"
    "succeeds (removeProvider st m a)" "succeeds (setCooldownSeconds st m n)"
    "succeeds (unpause st m)"
    by (simp_all add: op_defs onlyOwner_def Let_def)
qed

text \<open>
  In the paused state of the concrete history: the owner's \<open>openBatch\<close> reverts with
  \<open>Paused\<close>, a stranger's submission with \<open>NotProvider\<close>, and the owner can still set
  the cooldown and unpause.
\<close>

theorem pause_gate_witness:
  "paused pausedState
   \<and> step mockFhe thisAddr pausedState adminMsg OpenBatch = Inl Paused
   \<and> step mockFhe thisAddr pausedState strangerMsg (SubmitProposal 21 22 23) = Inl NotProvider
   \<and> exec mockFhe thisAddr pausedState (adminMsg, OpenBatch) = pausedState
   \<and> step mockFhe thisAddr pausedState strangerMsg (MyCallback 42 [] []) \<noteq> Inl Paused
   \<and> succeeds (setCooldownSeconds pausedState adminMsg 5)
   \<and> succeeds (unpause pausedState adminMsg)"
proof -
  have p: "paused pausedState"
    by (simp add: scen_defs)
  have o: "msg_sender adminMsg = owner pausedState"
    by (simp add: scen_defs)
  have a1: "accessCheck pausedState adminMsg OpenBatch = None"
    by (simp add: onlyOwner_def scen_defs)
  have a2: "accessCheck pausedState strangerMsg (SubmitProposal 21 22 23) = Some NotProvider"
    by (simp add: onlyProvider_def scen_defs)
  from pause_gate [OF p, of OpenBatch mockFhe thisAddr adminMsg 7 5]
    pause_gate [OF p, of "SubmitProposal 21 22 23" mockFhe thisAddr strangerMsg 7 5]
    pause_gate [OF p, of "MyCallback 42 [] []" mockFhe thisAddr strangerMsg 7 5]
  show ?thesis
    using p o a1 a2 by simp
qed

subsection \<open>Proposals and batches\<close>

lemma submitProposal_stores:
  "submitProposal F st m a b c = Inr st' \<Longrightarrow>
     proposals st' (currentBatchId st') =
       \<lparr>encryptedProposalId = a, encryptedTargetValue = b, encryptedMarketPrediction = c\<rparr>"
  by (auto simp: submitProposal_def Let_def emit_def split: option.splits if_splits)

text \<open>
  Claim C4.  \<open>submitProposal\<close> stores the handles it is given: \<open>_initIfNeeded\<close> drops the
  handle it makes.  Submitting the zero handle as the proposal id succeeds and leaves
  an uninitialized handle in the current batch, so that the proposal fails
  \<open>_isProposalInitialized\<close> and a request for a decision on it reverts with
  \<open>ProposalNotInitialized\<close>.
\<close>

theorem submitProposal_keeps_uninitialized:
  "\<not> isInitialized mockFhe 0
   \<and> submitProposal mockFhe opened adminMsg 0 12 13 = Inr halfInitialized
   \<and> encryptedProposalId (proposals halfInitialized (currentBatchId halfInitialized)) = 0
   \<and> \<not> isProposalInitialized mockFhe halfInitialized (currentBatchId halfInitialized)
   \<and> requestGovernanceDecision mockFhe thisAddr halfInitialized laterMsg 1 42
        = Inl ProposalNotInitialized"
  by (simp add: submitProposal_def requestGovernanceDecision_def mod_defs emit_def
      checked_add_def scen_defs isProposalInitialized_def mock_simps)

text \<open>
  Claim C6.  One transaction changes \<open>currentBatchId\<close> only when it is a successful
  \<open>openBatch\<close>, and then by exactly one, without wrapping around.  After any run of
  transactions the counter stands at its initial value plus the number of successful
  \<open>openBatch\<close> calls of the run, and the \<open>k\<close>-th of them opens the id \<open>initial + k\<close>: no id
  is opened twice.
\<close>

theorem batch_ids_monotonic:
  "unat (currentBatchId (exec F this st (m, c))) =
     unat (currentBatchId st) + (if c = OpenBatch \<and> succeeds (openBatch st m) then 1 else 0)
   \<and> unat (currentBatchId (run F this st txs)) =
       unat (currentBatchId st) + length (openedIds F this st txs)
   \<and> map unat (openedIds F this st txs) =
       map (\<lambda>k. unat (currentBatchId st) + k) [1..<Suc (length (openedIds F this st txs))]"
  using unat_currentBatchId_exec unat_currentBatchId_run openedIds_enum by blast

lemma openBatch_stranger: "openBatch opened strangerMsg = Inl NotOwner"
  by (simp add: openBatch_def mod_defs scen_defs)

text \<open>
  A run with one successful \<open>openBatch\<close>, one by a stranger and one submission.
\<close>

theorem batch_ids_monotonic_witness:
  "openedIds mockFhe thisAddr deployed
     [(adminMsg, OpenBatch), (strangerMsg, OpenBatch), (adminMsg, SubmitProposal 11 12 13)] = [1]
   \<and> unat (currentBatchId (run mockFhe thisAddr deployed
     [(adminMsg, OpenBatch), (strangerMsg, OpenBatch), (adminMsg, SubmitProposal 11 12 13)])) = 1"
proof -
  have ids: "openedIds mockFhe thisAddr deployed
     [(adminMsg, OpenBatch), (strangerMsg, OpenBatch), (adminMsg, SubmitProposal 11 12 13)] = [1]"
    by (simp add: exec_def openBatch_deployed openBatch_stranger) (simp add: scen_defs)
  from batch_ids_monotonic [of mockFhe thisAddr deployed adminMsg OpenBatch
      "[(adminMsg, OpenBatch), (strangerMsg, OpenBatch), (adminMsg, SubmitProposal 11 12 13)]"]
  show ?thesis
    unfolding ids by (simp add: scen_defs)
qed

text \<open>
  Claim C7.  A transaction sets the caller's last submission time to the block's
  timestamp when it is a \<open>submitProposal\<close> that succeeds, and leaves every last
  submission time alone otherwise; likewise for the last decryption request time and
  \<open>requestGovernanceDecision\<close>.  A submission never touches a request time, nor a
  request a submission time.
\<close>

theorem cooldown_timestamps:
  "lastSubmissionTime (exec F this st (m, c)) =
     (if isSubmitProposal c \<and> succeeds (step F this st m c)
      then (lastSubmissionTime st)(msg_sender m := block_timestamp m)
      else lastSubmissionTime st)
   \<and> lastDecryptionRequestTime (exec F this st (m, c)) =
     (if isRequestGovernanceDecision c \<and> succeeds (step F this st m c)
      then (lastDecryptionRequestTime st)(msg_sender m := block_timestamp m)
      else lastDecryptionRequestTime st)"
  using lastSubmissionTime_exec lastDecryptionRequestTime_exec by blast

lemma submitProposal_early:
  "submitProposal mockFhe submitted earlyMsg 21 22 23 = Inl CooldownActive"
  by (simp add: submitProposal_def mod_defs checked_add_def scen_defs)

text \<open>
  In the concrete history: the submission at time 1000 succeeds and writes 1000 as the
  owner's last submission time, leaving the request time at 0; the request at time 1000
  succeeds and writes 1000 as the last request time, leaving the submission time; a
  submission at time 1030 reverts with \<open>CooldownActive\<close> and leaves the submission time
  at 1000; the resubmission at time 2000 writes 2000 and leaves the request time at 1000.
\<close>

theorem cooldown_timestamps_witness:
  "succeeds (step mockFhe thisAddr opened adminMsg (SubmitProposal 11 12 13))
   \<and> lastSubmissionTime opened 1 = 0
   \<and> lastSubmissionTime
        (exec mockFhe thisAddr opened (adminMsg, SubmitProposal 11 12 13)) 1 = 1000
   \<and> lastDecryptionRequestTime
        (exec mockFhe thisAddr opened (adminMsg, SubmitProposal 11 12 13)) 1 = 0
   \<and> succeeds (step mockFhe thisAddr submitted adminMsg (RequestGovernanceDecision 1 42))
   \<and> lastDecryptionRequestTime submitted 1 = 0
   \<and> lastDecryptionRequestTime
        (exec mockFhe thisAddr submitted (adminMsg, RequestGovernanceDecision 1 42)) 1 = 1000
   \<and> lastSubmissionTime
        (exec mockFhe thisAddr submitted (adminMsg, RequestGovernanceDecision 1 42)) 1 = 1000
   \<and> step mockFhe thisAddr submitted earlyMsg (SubmitProposal 21 22 23) = Inl CooldownActive
   \<and> lastSubmissionTime
        (exec mockFhe thisAddr submitted (earlyMsg, SubmitProposal 21 22 23)) 1 = 1000
   \<and> lastSubmissionTime
        (exec mockFhe thisAddr requested (laterMsg, SubmitProposal 21 22 23)) 1 = 2000
   \<and> lastDecryptionRequestTime
        (exec mockFhe thisAddr requested (laterMsg, SubmitProposal 21 22 23)) 1 = 1000"
proof -
  have s1: "succeeds (step mockFhe thisAddr opened adminMsg (SubmitProposal 11 12 13))"
    by (simp add: submitProposal_opened)
  have s2: "succeeds (step mockFhe thisAddr submitted adminMsg (RequestGovernanceDecision 1 42))"
    by (simp add: requestGovernanceDecision_submitted)
  have s3: "step mockFhe thisAddr submitted earlyMsg (SubmitProposal 21 22 23) = Inl CooldownActive"
    by (simp add: submitProposal_early)
  have s4: "succeeds (step mockFhe thisAddr requested laterMsg (SubmitProposal 21 22 23))"
    by (simp add: submitProposal_requested)
  from cooldown_timestamps [of mockFhe thisAddr opened adminMsg "SubmitProposal 11 12 13"]
    cooldown_timestamps [of mockFhe thisAddr submitted adminMsg "RequestGovernanceDecision 1 42"]
    cooldown_timestamps [of mockFhe thisAddr submitted earlyMsg "SubmitProposal 21 22 23"]
    cooldown_timestamps [of mockFhe thisAddr requested laterMsg "SubmitProposal 21 22 23"]
  show ?thesis
    using s1 s2 s3 s4 by (simp add: scen_defs)
qed

text \<open>
  Claim C8.  The constructor makes the deployer the owner and the only provider, emits
  \<open>ProviderAdded\<close> for the deployer, and sets the cooldown to 60 seconds; the contract
  starts unpaused, at batch 0, with the batch closed.
\<close>

theorem constructor_initial:
  "owner (constructor m) = msg_sender m
   \<and> isProvider (constructor m) = (\<lambda>_. False)(msg_sender m := True)
   \<and> events (constructor m) = [ProviderAdded (msg_sender m)]
   \<and> cooldownSeconds (constructor m) = 60
   \<and> \<not> paused (constructor m)
   \<and> currentBatchId (constructor m) = 0
   \<and> \<not> batchOpen (constructor m)"
  by (simp add: constructor_def zeroState_def emit_def)

text \<open>
  Claim C10, as the contract has it.  \<open>openBatch\<close> does not succeed for the owner in
  every unpaused state: with the counter at the largest \<open>uint256\<close> the checked increment
  reverts.  The deployed contract reaches such a state by \<open>2 ^ 256 - 1\<close> calls of
  \<open>openBatch\<close>.
\<close>

theorem openBatch_supersedes_counterexample:
  "owner (run mockFhe thisAddr deployed manyOpens) = msg_sender adminMsg
   \<and> \<not> paused (run mockFhe thisAddr deployed manyOpens)
   \<and> openBatch (run mockFhe thisAddr deployed manyOpens) adminMsg = Inl PanicOverflow
   \<and> msg_sender adminMsg = owner lastBatchState \<and> \<not> paused lastBatchState
   \<and> openBatch lastBatchState adminMsg = Inl PanicOverflow"
proof -
  define n :: nat where "n = 2 ^ 256 - 1"
  have m: "manyOpens = replicate n (adminMsg, OpenBatch)"
    unfolding manyOpens_def n_def ..
  have "unat (currentBatchId deployed) + n < 2 ^ 256"
    unfolding n_def by (simp add: deployed_def)
  from openBatch_repeat [OF _ _ this, of adminMsg mockFhe thisAddr]
  have r: "owner (run mockFhe thisAddr deployed manyOpens) = owner deployed"
    "\<not> paused (run mockFhe thisAddr deployed manyOpens)"
    "unat (currentBatchId (run mockFhe thisAddr deployed manyOpens))
       = unat (currentBatchId deployed) + n"
    unfolding m by (simp_all add: deployed_def adminMsg_def)
  from r(3) have "unat (currentBatchId (run mockFhe thisAddr deployed manyOpens))
      = unat (- 1 :: uint256)"
    unfolding unat_minus_one_256 n_def by (simp add: deployed_def)
  then have top: "currentBatchId (run mockFhe thisAddr deployed manyOpens) = - 1"
    by (simp only: word_unat_eq_iff)
  have o: "owner deployed = msg_sender adminMsg"
    by (simp add: deployed_def adminMsg_def)
  have "openBatch (run mockFhe thisAddr deployed manyOpens) adminMsg = Inl PanicOverflow"
    using r(1,2) top o by (simp add: openBatch_def onlyOwner_def whenNotPaused_def checked_add_one)
  moreover have "msg_sender adminMsg = owner lastBatchState \<and> \<not> paused lastBatchState
      \<and> openBatch lastBatchState adminMsg = Inl PanicOverflow"
    by (simp add: openBatch_def mod_defs checked_add_one scen_defs)
  ultimately show ?thesis using r(1,2) o by simp
qed

lemma requestGovernanceDecision_other_batch:
  "bid \<noteq> currentBatchId st \<Longrightarrow>
     requestGovernanceDecision F this st m bid rid =
       Inl (case modifiers [onlyProvider st m, whenNotPaused st, respectDecryptionCooldown st m] of
              None \<Rightarrow> InvalidBatchId | Some e \<Rightarrow> e)"
  by (simp add: requestGovernanceDecision_def split: option.splits)

text \<open>
  Claim C10, amended.  \<open>openBatch\<close> succeeds whenever the caller is the owner, the contract
  is not paused and the counter is below the largest \<open>uint256\<close>, whether or not the
  current batch is open.  It increments \<open>currentBatchId\<close> and leaves the stored proposals
  alone.  After any later run of transactions a request for a decision on the previous
  batch id reverts: with \<open>InvalidBatchId\<close> when the caller passes the modifiers, with
  the error of the first modifier that fails otherwise.
\<close>

theorem openBatch_supersedes:
  assumes own: "msg_sender m = owner st" and live: "\<not> paused st"
    and room: "currentBatchId st \<noteq> - 1"
  shows "succeeds (openBatch st m)
         \<and> currentBatchId (commit st (openBatch st m)) = currentBatchId st + 1
         \<and> unat (currentBatchId (commit st (openBatch st m))) = unat (currentBatchId st) + 1
         \<and> batchOpen (commit st (openBatch st m))
         \<and> proposals (commit st (openBatch st m)) = proposals st
         \<and> requestGovernanceDecision F this (run F this (commit st (openBatch st m)) txs) m'
               (currentBatchId st) rid =
             Inl (case modifiers
                    [onlyProvider (run F this (commit st (openBatch st m)) txs) m',
                     whenNotPaused (run F this (commit st (openBatch st m)) txs),
                     respectDecryptionCooldown (run F this (commit st (openBatch st m)) txs) m']
                  of None \<Rightarrow> InvalidBatchId | Some e \<Rightarrow> e)"
proof -
  let ?st1 = "commit st (openBatch st m)"
  from assms have ok: "openBatch st m =
      Inr (emit (BatchOpened (currentBatchId st + 1))
             (st\<lparr>currentBatchId := currentBatchId st + 1, batchOpen := True\<rparr>))"
    by (simp add: openBatch_def onlyOwner_def whenNotPaused_def checked_add_one)
  then have s: "succeeds (openBatch st m)" by simp
  have u: "unat (currentBatchId ?st1) = unat (currentBatchId st) + 1"
    using unat_currentBatchId_exec [of F this st m OpenBatch] s by (simp add: exec_def)
  have "unat (currentBatchId (run F this ?st1 txs)) \<ge> unat (currentBatchId ?st1)"
    by (simp add: unat_currentBatchId_run)
  with u have "currentBatchId st \<noteq> currentBatchId (run F this ?st1 txs)"
    by auto
  from requestGovernanceDecision_other_batch [OF this] s u show ?thesis
    by (simp add: ok emit_def)
qed

lemma openBatch_submitted: "openBatch submitted laterMsg = Inr reopened"
  by (simp add: openBatch_def mod_defs emit_def checked_add_one scen_defs)

text \<open>
  In the concrete history batch 1 is open and holds a proposal when the owner opens
  batch 2; the proposal stays stored under 1, and a request for batch 1 reverts.
\<close>

theorem openBatch_supersedes_witness:
  "msg_sender laterMsg = owner submitted \<and> \<not> paused submitted
   \<and> currentBatchId submitted \<noteq> - 1 \<and> batchOpen submitted
   \<and> proposals submitted 1 = firstProposal
   \<and> openBatch submitted laterMsg = Inr reopened
   \<and> currentBatchId reopened = 2
   \<and> proposals reopened 1 = firstProposal
   \<and> requestGovernanceDecision mockFhe thisAddr reopened laterMsg 1 42 = Inl InvalidBatchId"
proof -
  have h: "msg_sender laterMsg = owner submitted" "\<not> paused submitted"
    "currentBatchId submitted \<noteq> - 1"
    by (simp_all add: scen_defs)
  have g: "modifiers [onlyProvider reopened laterMsg, whenNotPaused reopened,
      respectDecryptionCooldown reopened laterMsg] = None"
    by (simp add: mod_defs checked_add_def scen_defs)
  from openBatch_supersedes [OF h, of mockFhe thisAddr "[]" laterMsg 42]
  show ?thesis
    using h g by (simp add: openBatch_submitted) (simp add: scen_defs)
qed

end
